theory Spec2Isabelle
  imports Main
begin

section \<open>Go values used by the handlers\<close>

text \<open>
  The program is \<^verbatim>\<open>src/main.go\<close>: six HTTP handlers over a MinIO client. A Go
  \<^verbatim>\<open>error\<close> is modelled by the text \<^verbatim>\<open>err.Error()\<close> gives; the nil error is
  \<open>None\<close>. Go strings are byte strings, here \<open>string\<close>. Calls to \<^verbatim>\<open>log.Printf\<close>
  write to the server's log only and are left out.
\<close>

type_synonym error = string

abbreviation (input) nl :: string where
  "nl \<equiv> [CHR 0x0A]"

abbreviation (input) dq :: string where
  "dq \<equiv> [CHR 0x22]"

abbreviation (input) sq :: string where
  "sq \<equiv> [CHR 0x27]"

text \<open>\<^verbatim>\<open>net/http\<close> status constants.\<close>

definition StatusOK :: nat where
  "StatusOK = 200"

definition StatusCreated :: nat where
  "StatusCreated = 201"

definition StatusBadRequest :: nat where
  "StatusBadRequest = 400"

definition StatusNotFound :: nat where
  "StatusNotFound = 404"

definition StatusMethodNotAllowed :: nat where
  "StatusMethodNotAllowed = 405"

definition StatusRequestEntityTooLarge :: nat where
  "StatusRequestEntityTooLarge = 413"

definition StatusInternalServerError :: nat where
  "StatusInternalServerError = 500"

text \<open>\<^verbatim>\<open>net/http\<close> method constants.\<close>

definition MethodGet :: string where
  "MethodGet = ''GET''"

definition MethodPost :: string where
  "MethodPost = ''POST''"

definition MethodPut :: string where
  "MethodPut = ''PUT''"

definition MethodDelete :: string where
  "MethodDelete = ''DELETE''"

text \<open>\<^verbatim>\<open>time.Duration\<close> counts nanoseconds.\<close>

definition Minute :: int where
  "Minute = 60 * 1000000000"

text \<open>
  \<^verbatim>\<open>strings.TrimPrefix(s, prefix)\<close>: \<open>s\<close> without the leading \<open>prefix\<close>; \<open>s\<close>
  itself when it does not start with \<open>prefix\<close>.
\<close>

definition TrimPrefix :: "string \<Rightarrow> string \<Rightarrow> string" where
  "TrimPrefix s p = (if take (length p) s = p then drop (length p) s else s)"

text \<open>
  A Go slice is nil or holds elements: \<open>None\<close> is the nil slice that
  \<^verbatim>\<open>var fileList []string\<close> declares, and \<^verbatim>\<open>append\<close> on it allocates.
\<close>

type_synonym 'a slice = "'a list option"

definition append_slice :: "'a slice \<Rightarrow> 'a \<Rightarrow> 'a slice" where
  "append_slice s x = (case s of None \<Rightarrow> Some [x] | Some xs \<Rightarrow> Some (xs @ [x]))"


section \<open>The response writer\<close>

text \<open>
  What a handler does to its \<^verbatim>\<open>http.ResponseWriter\<close>, in order: the header map, the
  status line (written once: by the first \<^verbatim>\<open>WriteHeader\<close>, or as 200 by the first
  write or flush), and the writes and flushes of the body. \<open>flusher\<close> says whether the
  writer implements \<^verbatim>\<open>http.Flusher\<close>.
\<close>

datatype chunk = Wrote string | Flushed

record ResponseWriter =
  header :: "string \<rightharpoonup> string"
  status :: "nat option"
  body :: "chunk list"
  flusher :: bool

definition newResponseWriter :: "bool \<Rightarrow> ResponseWriter" where
  "newResponseWriter f = \<lparr>header = Map.empty, status = None, body = [], flusher = f\<rparr>"

definition Header_Set :: "ResponseWriter \<Rightarrow> string \<Rightarrow> string \<Rightarrow> ResponseWriter" where
  "Header_Set w k v = w\<lparr>header := (header w)(k \<mapsto> v)\<rparr>"

definition Header_Del :: "ResponseWriter \<Rightarrow> string \<Rightarrow> ResponseWriter" where
  "Header_Del w k = w\<lparr>header := (header w)(k := None)\<rparr>"

definition WriteHeader :: "ResponseWriter \<Rightarrow> nat \<Rightarrow> ResponseWriter" where
  "WriteHeader w code = (case status w of None \<Rightarrow> w\<lparr>status := Some code\<rparr> | Some c \<Rightarrow> w)"

text \<open>\<^verbatim>\<open>fmt.Fprintf(w, ...)\<close> with the format already expanded to the text \<open>s\<close>.\<close>

definition Fprint :: "ResponseWriter \<Rightarrow> string \<Rightarrow> ResponseWriter" where
  "Fprint w s = (let w1 = WriteHeader w StatusOK in w1\<lparr>body := body w1 @ [Wrote s]\<rparr>)"

definition Flush :: "ResponseWriter \<Rightarrow> ResponseWriter" where
  "Flush w = (let w1 = WriteHeader w StatusOK in w1\<lparr>body := body w1 @ [Flushed]\<rparr>)"

text \<open>
  \<^verbatim>\<open>http.Error(w, msg, code)\<close>: plain-text headers, the status line, and the message
  followed by a newline. Which further headers it deletes varies with the Go version; the
  statements below are about the status line and the body.
\<close>

definition http_Error :: "ResponseWriter \<Rightarrow> string \<Rightarrow> nat \<Rightarrow> ResponseWriter" where
  "http_Error w msg code =
     Fprint
       (WriteHeader
          (Header_Set
             (Header_Set (Header_Del w ''Content-Length'')
                ''Content-Type'' ''text/plain; charset=utf-8'')
             ''X-Content-Type-Options'' ''nosniff'')
          code)
       (msg @ nl)"

section \<open>JSON encoding\<close>

text \<open>
  \<^verbatim>\<open>encoding/json\<close> on the two values the handlers encode. A nil slice encodes as
  \<^verbatim>\<open>null\<close>, any other slice as an array; a map with the one key \<^verbatim>\<open>url\<close> as an
  object. How one Go string becomes a JSON string literal (quotes, escapes) is the
  parameter \<open>q\<close>. \<^verbatim>\<open>Encoder.Encode\<close> writes the encoding and a newline.
\<close>

fun join_comma :: "string list \<Rightarrow> string" where
  "join_comma [] = []"
| "join_comma [x] = x"
| "join_comma (x # y # ys) = x @ '','' @ join_comma (y # ys)"

definition json_strings :: "(string \<Rightarrow> string) \<Rightarrow> string slice \<Rightarrow> string" where
  "json_strings q v =
     (case v of None \<Rightarrow> ''null'' | Some xs \<Rightarrow> ''['' @ join_comma (map q xs) @ '']'')"

definition json_url_object :: "(string \<Rightarrow> string) \<Rightarrow> string \<Rightarrow> string" where
  "json_url_object q u = ''{'' @ dq @ ''url'' @ dq @ '':'' @ q u @ ''}''"

definition Encode :: "ResponseWriter \<Rightarrow> string \<Rightarrow> ResponseWriter" where
  "Encode w js = Fprint w (js @ nl)"

section \<open>The request\<close>

text \<open>
  An \<^verbatim>\<open>*http.Request\<close> as the handlers use it. \<open>ContentLength\<close> is the size of the
  body in bytes; no handler reads it. The two methods the upload path calls are fields:
  \<open>ParseMultipartForm r maxMemory\<close> is the error \<^verbatim>\<open>r.ParseMultipartForm(maxMemory)\<close>
  returns, and \<open>FormFile r name\<close> is what \<^verbatim>\<open>r.FormFile(name)\<close> returns after a
  successful parse: an error, or the file's bytes and its header.
\<close>

record FileHeader =
  Filename :: string
  Header :: "string \<rightharpoonup> string"
  Size :: int

definition Header_Get :: "(string \<rightharpoonup> string) \<Rightarrow> string \<Rightarrow> string" where
  "Header_Get h k = (case h k of None \<Rightarrow> [] | Some v \<Rightarrow> v)"

record Request =
  Method :: string
  URL_Path :: string
  ContentLength :: int
  ParseMultipartForm :: "int \<Rightarrow> error option"
  FormFile :: "string \<Rightarrow> error + (string \<times> FileHeader)"

section \<open>The MinIO client\<close>

text \<open>
  The client is an external service. Its methods are the fields of \<open>Client\<close>, functions
  of the service's state \<open>'s\<close>: \<open>PutObject\<close> and \<open>RemoveObject\<close> return the error and
  the new state; \<open>ListObjects\<close> returns what its channel delivers until it is closed;
  \<open>PresignedGetObject\<close> returns an error or the text of the URL
  (\<^verbatim>\<open>presignedURL.String()\<close>). The arguments are those of the Go calls, without the
  context.
\<close>

record ObjectInfo =
  Key :: string
  ObjectErr :: "error option"

record 's Client =
  PutObject :: "'s \<Rightarrow> string \<Rightarrow> string \<Rightarrow> string \<Rightarrow> int \<Rightarrow> string \<Rightarrow> error option \<times> 's"
  RemoveObject :: "'s \<Rightarrow> string \<Rightarrow> string \<Rightarrow> error option \<times> 's"
  ListObjects :: "'s \<Rightarrow> string \<Rightarrow> ObjectInfo list"
  PresignedGetObject :: "'s \<Rightarrow> string \<Rightarrow> string \<Rightarrow> int \<Rightarrow> error + string"

record 's MinioHandler =
  minioClient :: "'s Client"
  bucketName :: string

text \<open>
  The world a handler runs in: the service's state and the record of the client calls
  made so far, each with its arguments.
\<close>

datatype Call =
    Call_PutObject string string string int string
  | Call_RemoveObject string string
  | Call_ListObjects string
  | Call_PresignedGetObject string string int
  | Call_ListenBucketNotification string string string "string list"

record 's World =
  store :: 's
  calls :: "Call list"

definition call_PutObject ::
  "'s MinioHandler \<Rightarrow> 's World \<Rightarrow> string \<Rightarrow> string \<Rightarrow> int \<Rightarrow> string \<Rightarrow> error option \<times> 's World" where
  "call_PutObject h wld objectName file sz contentType =
     (case PutObject (minioClient h) (store wld) (bucketName h) objectName file sz contentType of
        (err, s) \<Rightarrow>
          (err, \<lparr>store = s,
                 calls = calls wld @ [Call_PutObject (bucketName h) objectName file sz contentType]\<rparr>))"

definition call_RemoveObject ::
  "'s MinioHandler \<Rightarrow> 's World \<Rightarrow> string \<Rightarrow> error option \<times> 's World" where
  "call_RemoveObject h wld objectName =
     (case RemoveObject (minioClient h) (store wld) (bucketName h) objectName of
        (err, s) \<Rightarrow>
          (err, \<lparr>store = s, calls = calls wld @ [Call_RemoveObject (bucketName h) objectName]\<rparr>))"

definition call_ListObjects :: "'s MinioHandler \<Rightarrow> 's World \<Rightarrow> ObjectInfo list \<times> 's World" where
  "call_ListObjects h wld =
     (ListObjects (minioClient h) (store wld) (bucketName h),
      wld\<lparr>calls := calls wld @ [Call_ListObjects (bucketName h)]\<rparr>)"

definition call_PresignedGetObject ::
  "'s MinioHandler \<Rightarrow> 's World \<Rightarrow> string \<Rightarrow> int \<Rightarrow> (error + string) \<times> 's World" where
  "call_PresignedGetObject h wld objectName expiry =
     (PresignedGetObject (minioClient h) (store wld) (bucketName h) objectName expiry,
      wld\<lparr>calls := calls wld @ [Call_PresignedGetObject (bucketName h) objectName expiry]\<rparr>)"

definition call_ListenBucketNotification ::
  "'s MinioHandler \<Rightarrow> 's World \<Rightarrow> string \<Rightarrow> string \<Rightarrow> string list \<Rightarrow> 's World" where
  "call_ListenBucketNotification h wld pre suf events =
     wld\<lparr>calls := calls wld @ [Call_ListenBucketNotification (bucketName h) pre suf events]\<rparr>"

section \<open>The handlers\<close>

text \<open>
  Each handler takes the world and the response writer and returns both as it leaves
  them. \<^verbatim>\<open>defer file.Close()\<close> in \<^verbatim>\<open>processAndUploadFile\<close> only releases the
  uploaded file and is left out.
\<close>

definition getPresignedURLHandler ::
  "(string \<Rightarrow> string) \<Rightarrow> 's MinioHandler \<Rightarrow> 's World \<Rightarrow> ResponseWriter \<Rightarrow> Request
     \<Rightarrow> ResponseWriter \<times> 's World" where
  "getPresignedURLHandler q h wld w r =
     (if Method r \<noteq> MethodGet then
        (http_Error w ''Method not allowed'' StatusMethodNotAllowed, wld)
      else
        let objectName = TrimPrefix (URL_Path r) ''/get-download-link/'' in
        if objectName = [] then
          (http_Error w
             ''Object name is required in the URL path (e.g., /get-download-link/my-image.jpg)''
             StatusBadRequest, wld)
        else
          let expiry = 5 * Minute in
          (case call_PresignedGetObject h wld objectName expiry of
             (Inl err, wld1) \<Rightarrow>
               (http_Error w ''File not found or access denied'' StatusNotFound, wld1)
           | (Inr presignedURL, wld1) \<Rightarrow>
               (Encode
                  (WriteHeader (Header_Set w ''Content-Type'' ''application/json'') StatusOK)
                  (json_url_object q presignedURL),
                wld1)))"

definition processAndUploadFile ::
  "'s MinioHandler \<Rightarrow> 's World \<Rightarrow> ResponseWriter \<Rightarrow> Request \<Rightarrow> string
     \<Rightarrow> ResponseWriter \<times> 's World" where
  "processAndUploadFile h wld w r objectName =
     (case ParseMultipartForm r (10 * 2 ^ 20) of
        Some err \<Rightarrow> (http_Error w ''Could not parse multipart form'' StatusBadRequest, wld)
      | None \<Rightarrow>
          (case FormFile r ''file'' of
             Inl err \<Rightarrow>
               (http_Error w ''Could not retrieve file from form-data'' StatusBadRequest, wld)
           | Inr (file, hdr) \<Rightarrow>
               let objectName1 = (if objectName = [] then Filename hdr else objectName);
                   contentType = Header_Get (Header hdr) ''Content-Type''
               in
               (case call_PutObject h wld objectName1 file (Size hdr) contentType of
                  (Some err, wld1) \<Rightarrow>
                    (http_Error w ''Failed to upload file'' StatusInternalServerError, wld1)
                | (None, wld1) \<Rightarrow>
                    (Fprint (WriteHeader w StatusCreated)
                       (''Successfully processed '' @ sq @ objectName1 @ sq @ '' in bucket '' @ sq
                          @ bucketName h @ sq @ ''.'' @ nl),
                     wld1))))"

definition uploadFileHandler ::
  "'s MinioHandler \<Rightarrow> 's World \<Rightarrow> ResponseWriter \<Rightarrow> Request \<Rightarrow> ResponseWriter \<times> 's World" where
  "uploadFileHandler h wld w r =
     (if Method r \<noteq> MethodPost then
        (http_Error w ''Method not allowed'' StatusMethodNotAllowed, wld)
      else processAndUploadFile h wld w r [])"

definition modifyFileHandler ::
  "'s MinioHandler \<Rightarrow> 's World \<Rightarrow> ResponseWriter \<Rightarrow> Request \<Rightarrow> ResponseWriter \<times> 's World" where
  "modifyFileHandler h wld w r =
     (if Method r \<noteq> MethodPut then
        (http_Error w ''Method not allowed'' StatusMethodNotAllowed, wld)
      else
        let objectName = TrimPrefix (URL_Path r) ''/modify/'' in
        if objectName = [] then
          (http_Error w ''Object name is required in the URL path (e.g., /modify/myfile.png)''
             StatusBadRequest, wld)
        else processAndUploadFile h wld w r objectName)"

definition deleteFileHandler ::
  "'s MinioHandler \<Rightarrow> 's World \<Rightarrow> ResponseWriter \<Rightarrow> Request \<Rightarrow> ResponseWriter \<times> 's World" where
  "deleteFileHandler h wld w r =
     (if Method r \<noteq> MethodDelete then
        (http_Error w ''Method not allowed'' StatusMethodNotAllowed, wld)
      else
        let objectName = TrimPrefix (URL_Path r) ''/delete/'' in
        if objectName = [] then
          (http_Error w ''Object name is required'' StatusBadRequest, wld)
        else
          (case call_RemoveObject h wld objectName of
             (Some err, wld1) \<Rightarrow>
               (http_Error w ''Failed to delete file'' StatusInternalServerError, wld1)
           | (None, wld1) \<Rightarrow>
               (Fprint w
                  (''Successfully deleted '' @ sq @ objectName @ sq @ '' from bucket '' @ sq
                     @ bucketName h @ sq @ ''.'' @ nl),
                wld1)))"

text \<open>
  The \<^verbatim>\<open>for object := range objectCh\<close> loop of \<^verbatim>\<open>listFilesHandler\<close>: the first
  listing error ends it, otherwise every key is appended to \<open>fileList\<close>.
\<close>

fun rangeObjects :: "ObjectInfo list \<Rightarrow> string slice \<Rightarrow> error + string slice" where
  "rangeObjects [] fileList = Inr fileList"
| "rangeObjects (object # objectCh) fileList =
     (case ObjectErr object of
        Some err \<Rightarrow> Inl err
      | None \<Rightarrow> rangeObjects objectCh (append_slice fileList (Key object)))"

definition listFilesHandler ::
  "(string \<Rightarrow> string) \<Rightarrow> 's MinioHandler \<Rightarrow> 's World \<Rightarrow> ResponseWriter \<Rightarrow> Request
     \<Rightarrow> ResponseWriter \<times> 's World" where
  "listFilesHandler q h wld w r =
     (if Method r \<noteq> MethodGet then
        (http_Error w ''Method not allowed'' StatusMethodNotAllowed, wld)
      else
        (case call_ListObjects h wld of
           (objectCh, wld1) \<Rightarrow>
             (case rangeObjects objectCh None of
                Inl err \<Rightarrow> (http_Error w ''Failed to list files'' StatusInternalServerError, wld1)
              | Inr fileList \<Rightarrow>
                  (Encode (Header_Set w ''Content-Type'' ''application/json'')
                     (json_strings q fileList),
                   wld1))))"

text \<open>
  A watch session. \<^verbatim>\<open>notification.Info\<close> carries the record set and an error. The
  \<^verbatim>\<open>for { select { ... } }\<close> loop wakes on a notification from the subscription or on
  the request context's \<^verbatim>\<open>Done\<close>; \<open>watchLoop\<close> runs it over the wake-ups that have
  happened so far, in the order the \<^verbatim>\<open>select\<close> took them. With none left the loop is
  \<open>Blocked\<close> in the \<^verbatim>\<open>select\<close>; \<open>Returned\<close> means the handler has returned.
  \<open>Marshal\<close> is \<^verbatim>\<open>json.Marshal\<close> on a record set.
\<close>

record 'r Info =
  Records :: 'r
  Err :: "error option"

datatype 'r wake = Notification "'r Info" | Done

datatype session = Blocked | Returned

fun watchLoop ::
  "('r \<Rightarrow> error + string) \<Rightarrow> 'r wake list \<Rightarrow> ResponseWriter \<Rightarrow> ResponseWriter \<times> session" where
  "watchLoop Marshal [] w = (w, Blocked)"
| "watchLoop Marshal (Done # rest) w = (w, Returned)"
| "watchLoop Marshal (Notification notification # rest) w =
     (case Err notification of
        Some err \<Rightarrow>
          (Flush (Fprint w (''event: error'' @ nl @ ''data: '' @ err @ nl @ nl)), Returned)
      | None \<Rightarrow>
          (case Marshal (Records notification) of
             Inl err \<Rightarrow> watchLoop Marshal rest w
           | Inr jsonData \<Rightarrow>
               watchLoop Marshal rest (Flush (Fprint w (''data: '' @ jsonData @ nl @ nl)))))"

definition watchBucketHandler ::
  "('r \<Rightarrow> error + string) \<Rightarrow> 's MinioHandler \<Rightarrow> 's World \<Rightarrow> ResponseWriter \<Rightarrow> Request
     \<Rightarrow> 'r wake list \<Rightarrow> (ResponseWriter \<times> session) \<times> 's World" where
  "watchBucketHandler Marshal h wld w r wakes =
     (let w1 = Header_Set w ''Content-Type'' ''text/event-stream'';
          w2 = Header_Set w1 ''Cache-Control'' ''no-cache'';
          w3 = Header_Set w2 ''Connection'' ''keep-alive''
      in
      if \<not> flusher w3 then
        ((http_Error w3 ''Streaming unsupported!'' StatusInternalServerError, Returned), wld)
      else
        let wld1 = call_ListenBucketNotification h wld [] []
                     [''s3:ObjectCreated:*'', ''s3:ObjectRemoved:*''];
            w4 = Flush (Fprint w3 ('': connection established'' @ nl @ nl))
        in (watchLoop Marshal wakes w4, wld1))"

section \<open>Notions used in the statements\<close>

text \<open>The key \<open>k\<close> is in the bucket: the listing delivers it.\<close>

definition present :: "'s MinioHandler \<Rightarrow> 's World \<Rightarrow> string \<Rightarrow> bool" where
  "present h wld k =
     (k \<in> set (map Key (filter (\<lambda>object. ObjectErr object = None)
                           (ListObjects (minioClient h) (store wld) (bucketName h)))))"

text \<open>A response in the client-error range 400..499.\<close>

definition clientError :: "ResponseWriter \<Rightarrow> bool" where
  "clientError w = (case status w of None \<Rightarrow> False | Some c \<Rightarrow> 400 \<le> c \<and> c < 500)"

text \<open>The SSE frames of a watch session, each followed by its flush.\<close>

definition preamble :: "chunk list" where
  "preamble = [Wrote ('': connection established'' @ nl @ nl), Flushed]"

definition dataFrame :: "string \<Rightarrow> chunk list" where
  "dataFrame jsonData = [Wrote (''data: '' @ jsonData @ nl @ nl), Flushed]"

definition errorFrame :: "error \<Rightarrow> chunk list" where
  "errorFrame err = [Wrote (''event: error'' @ nl @ ''data: '' @ err @ nl @ nl), Flushed]"

text \<open>
  The writer of a watch session when its loop starts: the three SSE headers set, the
  status line and the comment frame written and flushed. \<open>listenCall\<close> is the one
  client call the session makes.
\<close>

definition opened :: ResponseWriter where
  "opened =
     \<lparr>header = [''Content-Type'' \<mapsto> ''text/event-stream'', ''Cache-Control'' \<mapsto> ''no-cache'',
                ''Connection'' \<mapsto> ''keep-alive''],
      status = Some StatusOK, body = preamble, flusher = True\<rparr>"

definition listenCall :: "'s MinioHandler \<Rightarrow> Call" where
  "listenCall h =
     Call_ListenBucketNotification (bucketName h) [] []
       [''s3:ObjectCreated:*'', ''s3:ObjectRemoved:*'']"

section \<open>Concrete inputs\<close>

text \<open>
  An in-memory client to run the handlers on. The bucket is a list of keys with their
  bytes, in listing order: put replaces the key's bytes or adds the key at the end, remove
  drops the key and reports success whether or not it was there, and the listing delivers
  the keys without error. Presigning signs locally, as the MinIO client does: it never
  looks the key up and returns a URL whether or not the key is in the bucket. Like the
  MinIO client, put, remove and presign refuse a name that is blank (empty or white space
  only) before doing anything; names it refuses for other reasons do not occur below.
\<close>

type_synonym Mem = "(string \<times> string) list"

fun mem_put :: "Mem \<Rightarrow> string \<Rightarrow> string \<Rightarrow> Mem" where
  "mem_put [] k v = [(k, v)]"
| "mem_put ((k', v') # kvs) k v =
     (if k' = k then (k, v) # kvs else (k', v') # mem_put kvs k v)"

definition blank :: "string \<Rightarrow> bool" where
  "blank k =
     (filter (\<lambda>c. c \<notin> {CHR 0x20, CHR 0x09, CHR 0x0A, CHR 0x0B, CHR 0x0C, CHR 0x0D}) k = [])"

definition memClient :: "Mem Client" where
  "memClient =
     \<lparr>PutObject =
        (\<lambda>s b k file sz ct.
           if blank k then (Some ''Object name cannot be empty'', s)
           else (None, mem_put s k file)),
      RemoveObject =
        (\<lambda>s b k.
           if blank k then (Some ''Object name cannot be empty'', s)
           else (None, filter (\<lambda>kv. fst kv \<noteq> k) s)),
      ListObjects = (\<lambda>s b. map (\<lambda>kv. \<lparr>Key = fst kv, ObjectErr = None\<rparr>) s),
      PresignedGetObject =
        (\<lambda>s b k expiry.
           if blank k then Inl ''Object name cannot be empty''
           else Inr (''https://minio.example/'' @ b @ ''/'' @ k @ ''?X-Amz-Expires=300''))\<rparr>"

definition memHandler :: "Mem MinioHandler" where
  "memHandler = \<lparr>minioClient = memClient, bucketName = ''testbucket''\<rparr>"

definition memWorld :: "Mem \<Rightarrow> Mem World" where
  "memWorld s = \<lparr>store = s, calls = []\<rparr>"

text \<open>
  \<^verbatim>\<open>filepath.Base\<close> on a path with \<^verbatim>\<open>/\<close> as the separator: the last element of the
  path, trailing separators ignored.
\<close>

definition Base :: "string \<Rightarrow> string" where
  "Base path =
     (if path = [] then ''.''
      else
        let stripped = rev (dropWhile (\<lambda>c. c = CHR ''/'') (rev path));
            element = rev (takeWhile (\<lambda>c. c \<noteq> CHR ''/'') (rev stripped))
        in if element = [] then ''/'' else element)"

text \<open>
  \<open>plainRequest\<close> is a request without a multipart body. \<open>fileRequest\<close> is a request
  whose multipart body has the one part \<^verbatim>\<open>file\<close> with the given declared filename,
  content type and bytes, as Go's parser reads it: the form parses whatever the size of
  the part (what does not fit into \<open>maxMemory\<close> is kept on disk); a part whose declared
  filename is empty is stored as a form value, so that \<^verbatim>\<open>r.FormFile\<close> finds no file;
  otherwise the header's \<^verbatim>\<open>Filename\<close> is the base name of the declared filename.
\<close>

definition plainRequest :: "string \<Rightarrow> string \<Rightarrow> Request" where
  "plainRequest m p =
     \<lparr>Method = m, URL_Path = p, ContentLength = 0,
      ParseMultipartForm = (\<lambda>maxMemory. Some ''multipart: NextPart: EOF''),
      FormFile = (\<lambda>name. Inl ''http: no such file'')\<rparr>"

definition fileRequest :: "string \<Rightarrow> string \<Rightarrow> string \<Rightarrow> string \<Rightarrow> string \<Rightarrow> Request" where
  "fileRequest m p filename contentType file =
     \<lparr>Method = m, URL_Path = p, ContentLength = int (length file),
      ParseMultipartForm = (\<lambda>maxMemory. None),
      FormFile =
        (\<lambda>name.
           if name = ''file'' \<and> filename \<noteq> []
           then Inr (file, \<lparr>Filename = Base filename,
                            Header = [''Content-Type'' \<mapsto> contentType],
                            Size = int (length file)\<rparr>)
           else Inl ''http: no such file'')\<rparr>"

text \<open>A file of one byte more than 10 MiB, and the upload that carries it.\<close>

definition bigFile :: string where
  "bigFile = replicate (10 * 2 ^ 20 + 1) (CHR ''a'')"

definition bigUpload :: Request where
  "bigUpload = fileRequest MethodPost ''/upload'' ''big.bin'' ''application/octet-stream'' bigFile"

text \<open>The JSON string literal of a string that needs no escapes.\<close>

definition quote :: "string \<Rightarrow> string" where
  "quote s = dq @ s @ dq"

text \<open>
  Notifications for a session whose record sets are JSON text already: two without error
  and one with an error.
\<close>

definition note1 :: "string Info" where
  "note1 = \<lparr>Records = ''[1]'', Err = None\<rparr>"

definition note2 :: "string Info" where
  "note2 = \<lparr>Records = ''[2]'', Err = None\<rparr>"

definition noteErr :: "string Info" where
  "noteErr = \<lparr>Records = [], Err = Some ''connection reset''\<rparr>"

section \<open>Basic facts\<close>

lemmas status_defs = StatusOK_def StatusCreated_def StatusBadRequest_def StatusNotFound_def
  StatusMethodNotAllowed_def StatusRequestEntityTooLarge_def StatusInternalServerError_def

lemmas method_defs = MethodGet_def MethodPost_def MethodPut_def MethodDelete_def

lemmas writer_defs = newResponseWriter_def Header_Set_def Header_Del_def WriteHeader_def
  Fprint_def Flush_def http_Error_def Encode_def

lemmas call_defs = call_PutObject_def call_RemoveObject_def call_ListObjects_def
  call_PresignedGetObject_def call_ListenBucketNotification_def

lemmas input_defs = memHandler_def memWorld_def memClient_def plainRequest_def fileRequest_def
  Base_def blank_def

lemma TrimPrefix_append: "TrimPrefix (p @ k) p = k"
  by (simp add: TrimPrefix_def)

lemma status_http_Error_new: "status (http_Error (newResponseWriter f) msg code) = Some code"
  by (simp add: writer_defs)

lemma body_http_Error_new: "body (http_Error (newResponseWriter f) msg code) = [Wrote (msg @ nl)]"
  by (simp add: writer_defs)

section \<open>The watch session\<close>

lemma Flush_Fprint_started:
  "status w = Some c \<Longrightarrow> Flush (Fprint w s) = w\<lparr>body := body w @ [Wrote s, Flushed]\<rparr>"
  by (simp add: Flush_def Fprint_def WriteHeader_def)

text \<open>A session that has returned ignores every later wake-up; a blocked one goes on.\<close>

lemma watchLoop_append:
  "watchLoop M (pre @ post) w =
     (case watchLoop M pre w of
        (w1, Blocked) \<Rightarrow> watchLoop M post w1
      | (w1, Returned) \<Rightarrow> (w1, Returned))"
proof (induction M pre w rule: watchLoop.induct)
  case (1 M w)
  then show ?case by simp
next
  case (2 M rest w)
  then show ?case by simp
next
  case (3 M n rest w)
  then show ?case by (simp split: option.splits sum.splits)
qed

lemma watchLoop_status:
  "status w = Some c \<Longrightarrow> status (fst (watchLoop M ws w)) = Some c"
proof (induction M ws w rule: watchLoop.induct)
  case (3 M n rest w)
  then show ?case
    by (simp add: Flush_Fprint_started split: option.splits sum.splits)
qed simp_all

lemma watchLoop_data:
  "\<forall>n \<in> set ns. Err n = None \<Longrightarrow> status w = Some c \<Longrightarrow>
   watchLoop (\<lambda>records. Inr (enc records)) (map Notification ns) w
     = (w\<lparr>body := body w @ concat (map (\<lambda>n. dataFrame (enc (Records n))) ns)\<rparr>, Blocked)"
proof (induction ns arbitrary: w)
  case Nil
  then show ?case by simp
next
  case (Cons n ns)
  have ok: "Err n = None" and rest: "\<forall>n \<in> set ns. Err n = None"
    using Cons.prems(1) by simp_all
  have st: "status (w\<lparr>body := body w @ dataFrame (enc (Records n))\<rparr>) = Some c"
    using Cons.prems(2) by simp
  show ?case
    using ok Cons.prems(2) Cons.IH [OF rest st]
    by (simp add: Flush_Fprint_started dataFrame_def)
qed

lemma watchLoop_error:
  "Err n = Some e \<Longrightarrow> status w = Some c \<Longrightarrow>
   watchLoop M (Notification n # rest) w = (w\<lparr>body := body w @ errorFrame e\<rparr>, Returned)"
  by (simp add: Flush_Fprint_started errorFrame_def)

lemma watchBucketHandler_flusher:
  "watchBucketHandler M h wld (newResponseWriter True) r wakes =
     (watchLoop M wakes opened, wld\<lparr>calls := calls wld @ [listenCall h]\<rparr>)"
  by (simp add: watchBucketHandler_def writer_defs call_defs opened_def preamble_def
      listenCall_def)

lemma watchBucketHandler_no_flusher:
  "snd (fst (watchBucketHandler M h wld (newResponseWriter False) r wakes)) = Returned"
  by (simp add: watchBucketHandler_def writer_defs)

lemma status_opened: "status opened = Some StatusOK"
  by (simp add: opened_def)

lemma watch_live:
  assumes "snd (fst (watchBucketHandler M h wld (newResponseWriter f) r pre)) = Blocked"
  shows "f \<and> (\<exists>w1. watchLoop M pre opened = (w1, Blocked) \<and> status w1 = Some StatusOK)"
proof -
  have f: "f"
    using assms watchBucketHandler_no_flusher [of M h wld r pre] by (cases f) auto
  obtain w1 where w1: "watchLoop M pre opened = (w1, Blocked)"
    using assms f by (cases "watchLoop M pre opened") (simp add: watchBucketHandler_flusher)
  have "status w1 = Some StatusOK"
    using watchLoop_status [OF status_opened, of M pre] w1 by simp
  with f w1 show ?thesis by blast
qed

text \<open>
  C4. \<^verbatim>\<open>json.Marshal\<close> does not fail on a record set (a slice of events made of
  strings, string maps and integers), so it is \<open>\<lambda>records. Inr (enc records)\<close> for the
  serialization \<open>enc\<close>. In a watch session that is waiting in its \<^verbatim>\<open>select\<close> after
  the wake-ups \<open>pre\<close>, the notifications \<open>ns\<close> that arrive without error add to the
  response exactly one \<^verbatim>\<open>data:\<close> frame each, holding the serialization of the
  notification's record set and followed at once by its flush, in the order of arrival
  and with nothing between or instead of them; the session goes on waiting. From the start
  of the session the frames follow the comment frame.
\<close>

theorem watch_one_data_frame_per_notification:
  assumes live: "snd (fst (watchBucketHandler (\<lambda>records. Inr (enc records)) h wld
                             (newResponseWriter f) r pre)) = Blocked"
    and good: "\<forall>n \<in> set ns. Err n = None"
  shows "body (fst (fst (watchBucketHandler (\<lambda>records. Inr (enc records)) h wld
                           (newResponseWriter f) r (pre @ map Notification ns))))
           = body (fst (fst (watchBucketHandler (\<lambda>records. Inr (enc records)) h wld
                               (newResponseWriter f) r pre)))
             @ concat (map (\<lambda>n. [Wrote (''data: '' @ enc (Records n) @ nl @ nl), Flushed]) ns)
         \<and> snd (fst (watchBucketHandler (\<lambda>records. Inr (enc records)) h wld
                       (newResponseWriter f) r (pre @ map Notification ns))) = Blocked
         \<and> (pre = [] \<longrightarrow>
              body (fst (fst (watchBucketHandler (\<lambda>records. Inr (enc records)) h wld
                                (newResponseWriter f) r pre)))
                = [Wrote ('': connection established'' @ nl @ nl), Flushed])"
proof -
  from watch_live [OF live] obtain w1 where f: "f"
    and w1: "watchLoop (\<lambda>records. Inr (enc records)) pre opened = (w1, Blocked)"
    and st: "status w1 = Some StatusOK"
    by blast
  have "watchLoop (\<lambda>records. Inr (enc records)) (pre @ map Notification ns) opened
          = (w1\<lparr>body := body w1 @ concat (map (\<lambda>n. dataFrame (enc (Records n))) ns)\<rparr>,
             Blocked)"
    using w1 watchLoop_data [OF good st] by (simp add: watchLoop_append)
  then show ?thesis
    using w1 f
    by (auto simp add: watchBucketHandler_flusher opened_def preamble_def dataFrame_def)
qed

theorem watch_one_data_frame_per_notification_witness:
  "snd (fst (watchBucketHandler (\<lambda>records. Inr records) memHandler (memWorld [])
               (newResponseWriter True) (plainRequest MethodGet ''/watch'') [])) = Blocked
   \<and> Err note1 = None \<and> Err note2 = None
   \<and> body (fst (fst (watchBucketHandler (\<lambda>records. Inr records) memHandler (memWorld [])
                       (newResponseWriter True) (plainRequest MethodGet ''/watch'')
                       [Notification note1, Notification note2])))
       = [Wrote ('': connection established'' @ nl @ nl), Flushed,
          Wrote (''data: [1]'' @ nl @ nl), Flushed,
          Wrote (''data: [2]'' @ nl @ nl), Flushed]
   \<and> snd (fst (watchBucketHandler (\<lambda>records. Inr records) memHandler (memWorld [])
                 (newResponseWriter True) (plainRequest MethodGet ''/watch'')
                 [Notification note1, Notification note2])) = Blocked"
proof -
  have live: "snd (fst (watchBucketHandler (\<lambda>records. Inr ((\<lambda>x. x) records)) memHandler
                          (memWorld []) (newResponseWriter True)
                          (plainRequest MethodGet ''/watch'') [])) = Blocked"
    by (simp add: watchBucketHandler_flusher)
  have good: "\<forall>n \<in> set [note1, note2]. Err n = None"
    by (simp add: note1_def note2_def)
  show ?thesis
    using live good watch_one_data_frame_per_notification [OF live good]
    by (simp add: note1_def note2_def)
qed

text \<open>
  C8. In a watch session that is waiting in its \<^verbatim>\<open>select\<close> after the wake-ups \<open>pre\<close>,
  a notification that carries an error adds exactly one \<^verbatim>\<open>event: error\<close> frame with
  the error's text to the response, followed by its flush, and the handler returns:
  whatever wakes it afterwards (\<open>rest\<close>) writes nothing, and the client calls are those
  made before the error, so no new subscription is opened.
\<close>

theorem watch_error_frame_then_return:
  assumes live: "snd (fst (watchBucketHandler M h wld (newResponseWriter f) r pre)) = Blocked"
    and err: "Err n = Some e"
  shows "body (fst (fst (watchBucketHandler M h wld (newResponseWriter f) r
                           (pre @ Notification n # rest))))
           = body (fst (fst (watchBucketHandler M h wld (newResponseWriter f) r pre)))
             @ errorFrame e
         \<and> snd (fst (watchBucketHandler M h wld (newResponseWriter f) r
                       (pre @ Notification n # rest))) = Returned
         \<and> snd (watchBucketHandler M h wld (newResponseWriter f) r (pre @ Notification n # rest))
           = wld\<lparr>calls := calls wld @ [listenCall h]\<rparr>"
proof -
  from watch_live [OF live] obtain w1 where f: "f"
    and w1: "watchLoop M pre opened = (w1, Blocked)" and st: "status w1 = Some StatusOK"
    by blast
  have "watchLoop M (pre @ Notification n # rest) opened
          = (w1\<lparr>body := body w1 @ errorFrame e\<rparr>, Returned)"
    using w1 watchLoop_error [OF err st] by (simp add: watchLoop_append)
  then show ?thesis
    using w1 f by (simp add: watchBucketHandler_flusher)
qed

theorem watch_error_frame_then_return_witness:
  "snd (fst (watchBucketHandler Inr memHandler (memWorld []) (newResponseWriter True)
               (plainRequest MethodGet ''/watch'') [Notification note1])) = Blocked
   \<and> Err noteErr = Some ''connection reset''
   \<and> body (fst (fst (watchBucketHandler Inr memHandler (memWorld []) (newResponseWriter True)
                       (plainRequest MethodGet ''/watch'')
                       [Notification note1, Notification noteErr, Notification note2, Done])))
       = preamble @ dataFrame ''[1]'' @ errorFrame ''connection reset''
   \<and> snd (fst (watchBucketHandler Inr memHandler (memWorld []) (newResponseWriter True)
                 (plainRequest MethodGet ''/watch'')
                 [Notification note1, Notification noteErr, Notification note2, Done]))
       = Returned
   \<and> calls (snd (watchBucketHandler Inr memHandler (memWorld []) (newResponseWriter True)
                   (plainRequest MethodGet ''/watch'')
                   [Notification note1, Notification noteErr, Notification note2, Done]))
       = [listenCall memHandler]"
proof -
  have live: "snd (fst (watchBucketHandler Inr memHandler (memWorld []) (newResponseWriter True)
                          (plainRequest MethodGet ''/watch'') [Notification note1])) = Blocked"
    by (simp add: watchBucketHandler_flusher note1_def)
  have err: "Err noteErr = Some ''connection reset''"
    by (simp add: noteErr_def)
  show ?thesis
    using live err
      watch_error_frame_then_return [OF live err, of "[Notification note2, Done]"]
    by (simp add: watchBucketHandler_flusher opened_def note1_def dataFrame_def status_defs
        Flush_def Fprint_def WriteHeader_def memWorld_def)
qed

section \<open>Uploads\<close>

lemmas handler_defs = uploadFileHandler_def modifyFileHandler_def deleteFileHandler_def
  processAndUploadFile_def getPresignedURLHandler_def listFilesHandler_def

lemma length_bigFile: "int (length bigFile) = 10 * 2 ^ 20 + 1"
  by (simp add: bigFile_def)

lemma processAndUploadFile_valid:
  assumes "ParseMultipartForm r (10 * 2 ^ 20) = None"
    and "FormFile r ''file'' = Inr (file, hdr)"
    and "PutObject (minioClient h) (store wld) (bucketName h)
           (if k = [] then Filename hdr else k) file (Size hdr)
           (Header_Get (Header hdr) ''Content-Type'') = (err, s)"
  shows "processAndUploadFile h wld w r k =
           ((case err of
               Some e \<Rightarrow> http_Error w ''Failed to upload file'' StatusInternalServerError
             | None \<Rightarrow>
                 Fprint (WriteHeader w StatusCreated)
                   (''Successfully processed '' @ sq @ (if k = [] then Filename hdr else k) @ sq
                      @ '' in bucket '' @ sq @ bucketName h @ sq @ ''.'' @ nl)),
            \<lparr>store = s,
             calls = calls wld @
               [Call_PutObject (bucketName h) (if k = [] then Filename hdr else k) file (Size hdr)
                  (Header_Get (Header hdr) ''Content-Type'')]\<rparr>)"
  using assms by (simp add: processAndUploadFile_def call_PutObject_def Let_def split: option.splits)

lemma processAndUploadFile_status:
  "status (fst (processAndUploadFile h wld (newResponseWriter f) r k))
     \<in> {Some StatusBadRequest, Some StatusInternalServerError, Some StatusCreated}"
proof (cases "ParseMultipartForm r (10 * 2 ^ 20)")
  case (Some e)
  then show ?thesis by (simp add: processAndUploadFile_def status_http_Error_new)
next
  case None
  show ?thesis
  proof (cases "FormFile r ''file''")
    case (Inl e)
    with None show ?thesis by (simp add: processAndUploadFile_def status_http_Error_new)
  next
    case (Inr fh)
    obtain data hdr where fh: "fh = (data, hdr)" by (cases fh)
    obtain err s where put: "PutObject (minioClient h) (store wld) (bucketName h)
           (if k = [] then Filename hdr else k) data (Size hdr)
           (Header_Get (Header hdr) ''Content-Type'') = (err, s)"
      by (cases "PutObject (minioClient h) (store wld) (bucketName h)
           (if k = [] then Filename hdr else k) data (Size hdr)
           (Header_Get (Header hdr) ''Content-Type'')")
    show ?thesis
      using processAndUploadFile_valid [OF None Inr [unfolded fh] put, of "newResponseWriter f"]
      by (cases err) (simp_all add: status_http_Error_new, simp add: writer_defs)
  qed
qed

lemma upload_never_413:
  "status (fst (processAndUploadFile h wld (newResponseWriter f) r k))
     \<noteq> Some StatusRequestEntityTooLarge"
  using processAndUploadFile_status [of h wld f r k] by (auto simp add: status_defs)

text \<open>
  C1, at an upload of one byte more than 10 MiB. \<^verbatim>\<open>ParseMultipartForm(10 << 20)\<close>
  bounds the memory used for the form, not its size: the form parses, the whole file is
  put into the bucket and the answer is 201, not 413. No request at all makes the upload
  or the modify handler answer 413.
\<close>

theorem oversize_upload_is_stored:
  "10 * 2 ^ 20 < ContentLength bigUpload
   \<and> status (fst (uploadFileHandler memHandler (memWorld []) (newResponseWriter True) bigUpload))
       = Some StatusCreated
   \<and> calls (snd (uploadFileHandler memHandler (memWorld []) (newResponseWriter True) bigUpload))
       = [Call_PutObject ''testbucket'' ''big.bin'' bigFile (10 * 2 ^ 20 + 1)
            ''application/octet-stream'']
   \<and> store (snd (uploadFileHandler memHandler (memWorld []) (newResponseWriter True) bigUpload))
       = [(''big.bin'', bigFile)]
   \<and> StatusCreated \<noteq> StatusRequestEntityTooLarge
   \<and> status (fst (uploadFileHandler h wld (newResponseWriter f) r))
       \<noteq> Some StatusRequestEntityTooLarge
   \<and> status (fst (modifyFileHandler h wld (newResponseWriter f) r))
       \<noteq> Some StatusRequestEntityTooLarge"
proof -
  have u: "status (fst (uploadFileHandler h wld (newResponseWriter f) r))
             \<noteq> Some StatusRequestEntityTooLarge"
    using upload_never_413 [of h wld f r "[]"]
    by (simp add: uploadFileHandler_def status_http_Error_new status_defs)
  have m: "status (fst (modifyFileHandler h wld (newResponseWriter f) r))
             \<noteq> Some StatusRequestEntityTooLarge"
    using upload_never_413 [of h wld f r "TrimPrefix (URL_Path r) ''/modify/''"]
    by (simp add: modifyFileHandler_def status_http_Error_new status_defs Let_def)
  have e: "10 * 2 ^ 20 < ContentLength bigUpload
   \<and> status (fst (uploadFileHandler memHandler (memWorld []) (newResponseWriter True) bigUpload))
       = Some StatusCreated
   \<and> calls (snd (uploadFileHandler memHandler (memWorld []) (newResponseWriter True) bigUpload))
       = [Call_PutObject ''testbucket'' ''big.bin'' bigFile (10 * 2 ^ 20 + 1)
            ''application/octet-stream'']
   \<and> store (snd (uploadFileHandler memHandler (memWorld []) (newResponseWriter True) bigUpload))
       = [(''big.bin'', bigFile)]
   \<and> StatusCreated \<noteq> StatusRequestEntityTooLarge"
    by (simp add: handler_defs input_defs call_defs writer_defs method_defs length_bigFile
        Header_Get_def status_defs Let_def bigUpload_def)
  show ?thesis using e u m by blast
qed



text \<open>
  Against C10 as stated. An upload whose part \<^verbatim>\<open>file\<close> has the empty declared
  filename: \<^verbatim>\<open>r.FormFile\<close> finds no file, the answer is 400 and no client call is made.
\<close>

theorem upload_empty_filename_counterexample:
  "status (fst (uploadFileHandler memHandler (memWorld []) (newResponseWriter True)
                  (fileRequest MethodPost ''/upload'' [] ''text/plain'' ''hi'')))
     = Some StatusBadRequest
   \<and> body (fst (uploadFileHandler memHandler (memWorld []) (newResponseWriter True)
                  (fileRequest MethodPost ''/upload'' [] ''text/plain'' ''hi'')))
       = [Wrote (''Could not retrieve file from form-data'' @ nl)]
   \<and> calls (snd (uploadFileHandler memHandler (memWorld []) (newResponseWriter True)
                   (fileRequest MethodPost ''/upload'' [] ''text/plain'' ''hi''))) = []
   \<and> store (snd (uploadFileHandler memHandler (memWorld []) (newResponseWriter True)
                   (fileRequest MethodPost ''/upload'' [] ''text/plain'' ''hi''))) = []"
  by (simp add: uploadFileHandler_def processAndUploadFile_def input_defs writer_defs
      method_defs status_defs)

text \<open>
  C10, amended. A part \<^verbatim>\<open>file\<close> with the empty declared filename gives
  \<^verbatim>\<open>r.FormFile\<close> no file, and an upload for which \<^verbatim>\<open>r.FormFile\<close> finds no file is
  answered 400 (BadRequest) with the text \<^verbatim>\<open>Could not retrieve file from form-data\<close>
  before any client call: \<^verbatim>\<open>PutObject\<close> is not called, and the world is unchanged.
\<close>

theorem upload_empty_filename_is_BadRequest:
  assumes post: "Method r = MethodPost"
    and parse: "ParseMultipartForm r (10 * 2 ^ 20) = None"
    and nofile: "FormFile r ''file'' = Inl e"
  shows "status (fst (uploadFileHandler h wld (newResponseWriter f) r)) = Some StatusBadRequest
         \<and> body (fst (uploadFileHandler h wld (newResponseWriter f) r))
             = [Wrote (''Could not retrieve file from form-data'' @ nl)]
         \<and> snd (uploadFileHandler h wld (newResponseWriter f) r) = wld
         \<and> FormFile (fileRequest m p [] contentType data) ''file'' = Inl ''http: no such file''"
  using assms
  by (simp add: uploadFileHandler_def processAndUploadFile_def status_http_Error_new
      body_http_Error_new fileRequest_def)

theorem upload_empty_filename_is_BadRequest_witness:
  "Method (fileRequest MethodPost ''/upload'' [] ''text/plain'' ''hi'') = MethodPost
   \<and> ParseMultipartForm (fileRequest MethodPost ''/upload'' [] ''text/plain'' ''hi'') (10 * 2 ^ 20)
       = None
   \<and> FormFile (fileRequest MethodPost ''/upload'' [] ''text/plain'' ''hi'') ''file''
       = Inl ''http: no such file''
   \<and> status (fst (uploadFileHandler memHandler (memWorld [(''a.txt'', ''hello'')])
                    (newResponseWriter True)
                    (fileRequest MethodPost ''/upload'' [] ''text/plain'' ''hi'')))
       = Some StatusBadRequest
   \<and> snd (uploadFileHandler memHandler (memWorld [(''a.txt'', ''hello'')])
            (newResponseWriter True)
            (fileRequest MethodPost ''/upload'' [] ''text/plain'' ''hi''))
       = memWorld [(''a.txt'', ''hello'')]"
proof -
  have a: "Method (fileRequest MethodPost ''/upload'' [] ''text/plain'' ''hi'') = MethodPost"
    by (simp add: fileRequest_def)
  have b: "ParseMultipartForm (fileRequest MethodPost ''/upload'' [] ''text/plain'' ''hi'')
             (10 * 2 ^ 20) = None"
    by (simp add: fileRequest_def)
  have c: "FormFile (fileRequest MethodPost ''/upload'' [] ''text/plain'' ''hi'') ''file''
             = Inl ''http: no such file''"
    by (simp add: fileRequest_def)
  show ?thesis
    using a b c
      upload_empty_filename_is_BadRequest [OF a b c, of memHandler
        "memWorld [(''a.txt'', ''hello'')]" True MethodPost "''/upload''" "''text/plain''" "''hi''"]
    by simp
qed

section \<open>Rejected requests\<close>

lemma clientError_http_Error:
  "clientError (http_Error (newResponseWriter f) msg code) = (400 \<le> code \<and> code < 500)"
  by (simp add: clientError_def status_http_Error_new)

lemma processAndUploadFile_clientError:
  "clientError (fst (processAndUploadFile h wld (newResponseWriter f) r k)) \<Longrightarrow>
     snd (processAndUploadFile h wld (newResponseWriter f) r k) = wld"
proof (cases "ParseMultipartForm r (10 * 2 ^ 20)")
  case (Some e)
  then show ?thesis by (simp add: processAndUploadFile_def)
next
  case None
  assume ce: "clientError (fst (processAndUploadFile h wld (newResponseWriter f) r k))"
  show ?thesis
  proof (cases "FormFile r ''file''")
    case (Inl e)
    with None show ?thesis by (simp add: processAndUploadFile_def)
  next
    case (Inr fh)
    obtain data hdr where fh: "fh = (data, hdr)" by (cases fh)
    obtain err s where put: "PutObject (minioClient h) (store wld) (bucketName h)
           (if k = [] then Filename hdr else k) data (Size hdr)
           (Header_Get (Header hdr) ''Content-Type'') = (err, s)"
      by (cases "PutObject (minioClient h) (store wld) (bucketName h)
           (if k = [] then Filename hdr else k) data (Size hdr)
           (Header_Get (Header hdr) ''Content-Type'')")
    have "\<not> clientError (fst (processAndUploadFile h wld (newResponseWriter f) r k))"
      using processAndUploadFile_valid [OF None Inr [unfolded fh] put, of "newResponseWriter f"]
      by (cases err) (simp_all add: clientError_http_Error status_defs,
          simp add: clientError_def writer_defs status_defs)
    with ce show ?thesis by simp
  qed
qed

text \<open>
  C9. When the upload, modify or delete handler answers in the range 400..499, the world
  is the one the handler started in: no client call was made and the service's state is
  unchanged. A wrong method, an empty key, a form that does not parse and a missing field
  \<^verbatim>\<open>file\<close> are each answered in that range.
\<close>

theorem client_error_leaves_backend_untouched:
  "(clientError (fst (uploadFileHandler h wld (newResponseWriter f) r))
      \<longrightarrow> snd (uploadFileHandler h wld (newResponseWriter f) r) = wld)
   \<and> (clientError (fst (modifyFileHandler h wld (newResponseWriter f) r))
      \<longrightarrow> snd (modifyFileHandler h wld (newResponseWriter f) r) = wld)
   \<and> (clientError (fst (deleteFileHandler h wld (newResponseWriter f) r))
      \<longrightarrow> snd (deleteFileHandler h wld (newResponseWriter f) r) = wld)
   \<and> (Method r \<noteq> MethodPost \<or> ParseMultipartForm r (10 * 2 ^ 20) \<noteq> None
        \<or> (\<exists>e. FormFile r ''file'' = Inl e)
      \<longrightarrow> clientError (fst (uploadFileHandler h wld (newResponseWriter f) r)))
   \<and> (Method r \<noteq> MethodPut \<or> TrimPrefix (URL_Path r) ''/modify/'' = []
        \<or> ParseMultipartForm r (10 * 2 ^ 20) \<noteq> None \<or> (\<exists>e. FormFile r ''file'' = Inl e)
      \<longrightarrow> clientError (fst (modifyFileHandler h wld (newResponseWriter f) r)))
   \<and> (Method r \<noteq> MethodDelete \<or> TrimPrefix (URL_Path r) ''/delete/'' = []
      \<longrightarrow> clientError (fst (deleteFileHandler h wld (newResponseWriter f) r)))"
proof -
  have u: "clientError (fst (uploadFileHandler h wld (newResponseWriter f) r))
             \<longrightarrow> snd (uploadFileHandler h wld (newResponseWriter f) r) = wld"
    using processAndUploadFile_clientError [of h wld f r "[]"]
    by (simp add: uploadFileHandler_def)
  have m: "clientError (fst (modifyFileHandler h wld (newResponseWriter f) r))
             \<longrightarrow> snd (modifyFileHandler h wld (newResponseWriter f) r) = wld"
    using processAndUploadFile_clientError [of h wld f r "TrimPrefix (URL_Path r) ''/modify/''"]
    by (simp add: modifyFileHandler_def Let_def)
  have d: "clientError (fst (deleteFileHandler h wld (newResponseWriter f) r))
             \<longrightarrow> snd (deleteFileHandler h wld (newResponseWriter f) r) = wld"
    by (simp add: deleteFileHandler_def Let_def call_RemoveObject_def clientError_http_Error
        status_defs split: prod.splits option.splits)
      (simp add: clientError_def writer_defs status_defs)
  have pc: "clientError (fst (processAndUploadFile h wld (newResponseWriter f) r key))"
    if "ParseMultipartForm r (10 * 2 ^ 20) \<noteq> None \<or> (\<exists>e. FormFile r ''file'' = Inl e)" for key
    using that
    by (auto simp add: processAndUploadFile_def clientError_http_Error status_defs
        split: option.splits)
  have uc: "clientError (fst (uploadFileHandler h wld (newResponseWriter f) r))"
    if "Method r \<noteq> MethodPost \<or> ParseMultipartForm r (10 * 2 ^ 20) \<noteq> None
        \<or> (\<exists>e. FormFile r ''file'' = Inl e)"
    using that pc [of "[]"]
    by (auto simp add: uploadFileHandler_def clientError_http_Error status_defs)
  have mc: "clientError (fst (modifyFileHandler h wld (newResponseWriter f) r))"
    if "Method r \<noteq> MethodPut \<or> TrimPrefix (URL_Path r) ''/modify/'' = []
        \<or> ParseMultipartForm r (10 * 2 ^ 20) \<noteq> None \<or> (\<exists>e. FormFile r ''file'' = Inl e)"
    using that pc [of "TrimPrefix (URL_Path r) ''/modify/''"]
    by (auto simp add: modifyFileHandler_def Let_def clientError_http_Error status_defs)
  have dc: "clientError (fst (deleteFileHandler h wld (newResponseWriter f) r))"
    if "Method r \<noteq> MethodDelete \<or> TrimPrefix (URL_Path r) ''/delete/'' = []"
    using that
    by (auto simp add: deleteFileHandler_def Let_def clientError_http_Error status_defs)
  show ?thesis using u m d uc mc dc by blast
qed

theorem client_error_leaves_backend_untouched_witness:
  "clientError (fst (uploadFileHandler memHandler (memWorld [(''a.txt'', ''hello'')])
                       (newResponseWriter True) (plainRequest MethodPost ''/upload'')))
   \<and> snd (uploadFileHandler memHandler (memWorld [(''a.txt'', ''hello'')])
            (newResponseWriter True) (plainRequest MethodPost ''/upload''))
       = memWorld [(''a.txt'', ''hello'')]
   \<and> clientError (fst (modifyFileHandler memHandler (memWorld [(''a.txt'', ''hello'')])
                         (newResponseWriter True) (plainRequest MethodPost ''/modify/a.txt'')))
   \<and> snd (modifyFileHandler memHandler (memWorld [(''a.txt'', ''hello'')])
            (newResponseWriter True) (plainRequest MethodPost ''/modify/a.txt''))
       = memWorld [(''a.txt'', ''hello'')]
   \<and> TrimPrefix (URL_Path (plainRequest MethodDelete ''/delete/'')) ''/delete/'' = []
   \<and> clientError (fst (deleteFileHandler memHandler (memWorld [(''a.txt'', ''hello'')])
                         (newResponseWriter True) (plainRequest MethodDelete ''/delete/'')))
   \<and> snd (deleteFileHandler memHandler (memWorld [(''a.txt'', ''hello'')])
            (newResponseWriter True) (plainRequest MethodDelete ''/delete/''))
       = memWorld [(''a.txt'', ''hello'')]"
proof -
  have a: "ParseMultipartForm (plainRequest MethodPost ''/upload'') (10 * 2 ^ 20) \<noteq> None"
    by (simp add: plainRequest_def)
  have b: "Method (plainRequest MethodPost ''/modify/a.txt'') \<noteq> MethodPut"
    by (simp add: plainRequest_def method_defs)
  have c: "TrimPrefix (URL_Path (plainRequest MethodDelete ''/delete/'')) ''/delete/'' = []"
    by (simp add: plainRequest_def TrimPrefix_def)
  show ?thesis
    using a b c
      client_error_leaves_backend_untouched [of memHandler "memWorld [(''a.txt'', ''hello'')]"
        True "plainRequest MethodPost ''/upload''"]
      client_error_leaves_backend_untouched [of memHandler "memWorld [(''a.txt'', ''hello'')]"
        True "plainRequest MethodPost ''/modify/a.txt''"]
      client_error_leaves_backend_untouched [of memHandler "memWorld [(''a.txt'', ''hello'')]"
        True "plainRequest MethodDelete ''/delete/''"]
    by simp
qed

section \<open>Read grants\<close>

lemma getPresignedURLHandler_result:
  assumes "Method r = MethodGet" and "URL_Path r = ''/get-download-link/'' @ k" and "k \<noteq> []"
  shows "getPresignedURLHandler q h wld w r =
           ((case PresignedGetObject (minioClient h) (store wld) (bucketName h) k (5 * Minute) of
               Inl e \<Rightarrow> http_Error w ''File not found or access denied'' StatusNotFound
             | Inr u \<Rightarrow>
                 Encode (WriteHeader (Header_Set w ''Content-Type'' ''application/json'') StatusOK)
                   (json_url_object q u)),
            wld\<lparr>calls := calls wld @ [Call_PresignedGetObject (bucketName h) k (5 * Minute)]\<rparr>)"
proof -
  have tp: "TrimPrefix (URL_Path r) ''/get-download-link/'' = k"
    unfolding assms(2) by (rule TrimPrefix_append)
  show ?thesis
    using assms(1,3)
    by (simp add: getPresignedURLHandler_def tp call_PresignedGetObject_def Let_def
        split: sum.splits)
qed

lemma present_mem: "present memHandler (memWorld s) k = (k \<in> set (map fst s))"
  by (simp add: present_def input_defs comp_def)

text \<open>
  What the handler answers is decided by the outcome of \<^verbatim>\<open>PresignedGetObject\<close> alone:
  404 with the text \<^verbatim>\<open>File not found or access denied\<close> for every error, 200 with the
  JSON object holding the URL for every URL. It makes no other client call.
\<close>

lemma presign_outcome_decides:
  assumes "Method r = MethodGet" and "URL_Path r = ''/get-download-link/'' @ k" and "k \<noteq> []"
  shows "(\<forall>e. PresignedGetObject (minioClient h) (store wld) (bucketName h) k (5 * Minute) = Inl e
            \<longrightarrow> status (fst (getPresignedURLHandler q h wld (newResponseWriter f) r))
                  = Some StatusNotFound
                \<and> body (fst (getPresignedURLHandler q h wld (newResponseWriter f) r))
                  = [Wrote (''File not found or access denied'' @ nl)])
         \<and> (\<forall>u. PresignedGetObject (minioClient h) (store wld) (bucketName h) k (5 * Minute) = Inr u
            \<longrightarrow> status (fst (getPresignedURLHandler q h wld (newResponseWriter f) r))
                  = Some StatusOK
                \<and> body (fst (getPresignedURLHandler q h wld (newResponseWriter f) r))
                  = [Wrote (''{'' @ dq @ ''url'' @ dq @ '':'' @ q u @ ''}'' @ nl)])
         \<and> snd (getPresignedURLHandler q h wld (newResponseWriter f) r)
             = wld\<lparr>calls := calls wld @ [Call_PresignedGetObject (bucketName h) k (5 * Minute)]\<rparr>"
  using getPresignedURLHandler_result [OF assms, of q h wld "newResponseWriter f"]
  by (auto simp add: status_http_Error_new body_http_Error_new writer_defs json_url_object_def)

text \<open>
  C2, at a key that is not in the bucket. The client signs without looking the key up, the
  handler makes no lookup of its own, and the answer is 200 with a URL, not 404.
\<close>

theorem presign_absent_key_is_200:
  "\<not> present memHandler (memWorld [(''a.txt'', ''hello'')]) ''ghost.txt''
   \<and> status (fst (getPresignedURLHandler quote memHandler (memWorld [(''a.txt'', ''hello'')])
                    (newResponseWriter True)
                    (plainRequest MethodGet ''/get-download-link/ghost.txt'')))
       = Some StatusOK
   \<and> body (fst (getPresignedURLHandler quote memHandler (memWorld [(''a.txt'', ''hello'')])
                  (newResponseWriter True)
                  (plainRequest MethodGet ''/get-download-link/ghost.txt'')))
       = [Wrote (''{'' @ dq @ ''url'' @ dq @ '':'' @ dq
                  @ ''https://minio.example/testbucket/ghost.txt?X-Amz-Expires=300'' @ dq
                  @ ''}'' @ nl)]
   \<and> calls (snd (getPresignedURLHandler quote memHandler (memWorld [(''a.txt'', ''hello'')])
                   (newResponseWriter True)
                   (plainRequest MethodGet ''/get-download-link/ghost.txt'')))
       = [Call_PresignedGetObject ''testbucket'' ''ghost.txt'' (5 * Minute)]
   \<and> StatusOK \<noteq> StatusNotFound"
  by (simp add: present_mem)
    (simp add: getPresignedURLHandler_def TrimPrefix_def call_PresignedGetObject_def
      input_defs writer_defs json_url_object_def quote_def method_defs status_defs Let_def)

section \<open>Listing and deleting\<close>





text \<open>
  C3, at the empty bucket. The listing delivers nothing, \<open>fileList\<close> stays the nil slice,
  and the answer is 200 with the body \<^verbatim>\<open>null\<close> and a newline, not \<^verbatim>\<open>[]\<close>.
\<close>

theorem list_empty_bucket_is_null:
  "status (fst (listFilesHandler q memHandler (memWorld []) (newResponseWriter f)
                  (plainRequest MethodGet ''/list''))) = Some StatusOK
   \<and> body (fst (listFilesHandler q memHandler (memWorld []) (newResponseWriter f)
                  (plainRequest MethodGet ''/list''))) = [Wrote (''null'' @ nl)]
   \<and> body (fst (listFilesHandler q memHandler (memWorld []) (newResponseWriter f)
                  (plainRequest MethodGet ''/list''))) \<noteq> [Wrote (''[]'' @ nl)]"
  by (simp add: handler_defs input_defs call_defs writer_defs json_strings_def method_defs)



section \<open>Methods\<close>

lemma wrong_method_rejected:
  "Method r \<noteq> MethodPost \<Longrightarrow>
     uploadFileHandler h wld w r = (http_Error w ''Method not allowed'' StatusMethodNotAllowed, wld)"
  "Method r \<noteq> MethodPut \<Longrightarrow>
     modifyFileHandler h wld w r = (http_Error w ''Method not allowed'' StatusMethodNotAllowed, wld)"
  "Method r \<noteq> MethodDelete \<Longrightarrow>
     deleteFileHandler h wld w r = (http_Error w ''Method not allowed'' StatusMethodNotAllowed, wld)"
  "Method r \<noteq> MethodGet \<Longrightarrow>
     listFilesHandler q h wld w r = (http_Error w ''Method not allowed'' StatusMethodNotAllowed, wld)"
  "Method r \<noteq> MethodGet \<Longrightarrow>
     getPresignedURLHandler q h wld w r
       = (http_Error w ''Method not allowed'' StatusMethodNotAllowed, wld)"
  by (simp_all add: handler_defs)

text \<open>
  C5, at the watch handler. It does not look at the method: a POST on \<^verbatim>\<open>/watch\<close>
  opens the subscription, is answered 200 and gets the comment frame, and the session
  waits for notifications. Whatever the request, the watch handler never answers 405.
\<close>

theorem watch_accepts_wrong_method:
  "watchBucketHandler M h wld (newResponseWriter True) (plainRequest MethodPost ''/watch'') []
     = ((opened, Blocked), wld\<lparr>calls := calls wld @ [listenCall h]\<rparr>)
   \<and> status opened = Some StatusOK
   \<and> body opened = preamble
   \<and> status (fst (fst (watchBucketHandler M h wld (newResponseWriter f) r wakes)))
       \<noteq> Some StatusMethodNotAllowed"
proof -
  have "status (fst (fst (watchBucketHandler M h wld (newResponseWriter f) r wakes)))
          \<noteq> Some StatusMethodNotAllowed"
  proof (cases f)
    case True
    then show ?thesis
      using watchLoop_status [OF status_opened, of M wakes]
      by (simp add: watchBucketHandler_flusher status_defs)
  next
    case False
    then show ?thesis
      by (simp add: watchBucketHandler_def writer_defs status_defs)
  qed
  then show ?thesis
    by (simp add: watchBucketHandler_flusher opened_def)
qed

end
